theory Spec2Isabelle
  imports Main "HOL-Library.Word"
begin

section \<open>Errors\<close>

text \<open>
  The two source files build their errors in two ways: the legacy constructors of the
  SDK (\<^verbatim>\<open>sdk.ErrInternal(msg)\<close>, \<^verbatim>\<open>sdk.ErrUnknownRequest(msg)\<close>, ...) and the wrapping of a
  registered root error (\<^verbatim>\<open>sdkErrors.Wrap(sdkErrors.ErrUnknownRequest, desc)\<close>). Both are
  kept apart here. An error handed over by a collaborator (the keeper, the virtual
  machine) is opaque: \<open>Foreign\<close>.
\<close>

datatype root = ErrInternal | ErrUnknownRequest | ErrInvalidAddress | ErrInvalidCoins
  | ErrJSONMarshal

datatype error =
    Root root
  | Wrap error string
  | SdkError root string
  | Foreign string

text \<open>The registered category an error belongs to, seen through any wrapping.\<close>

fun kind :: "error \<Rightarrow> root option" where
  "kind (Root r) = Some r"
| "kind (Wrap e d) = kind e"
| "kind (SdkError r m) = Some r"
| "kind (Foreign m) = None"

type_synonym bytes = string
type_synonym AccAddress = bytes

section \<open>Messages (package types)\<close>

definition MaxWasmSize :: nat where
  "MaxWasmSize = 500 * 1024"

definition BuildTagRegex :: string where
  "BuildTagRegex = ''^cosmwasm-opt:''"

record MsgStoreCode =
  Sender :: AccAddress
  WASMByteCode :: bytes
  Source :: string
  Builder :: string

text \<open>
  \<^verbatim>\<open>sdk.Coins\<close> is a slice of coins, each a denomination and an arbitrary-precision
  amount. \<^verbatim>\<open>IsAnyNegative\<close> of the SDK ranges over the slice and answers true at the first
  coin whose amount is below zero.
\<close>

record Coin =
  Denom :: string
  Amount :: int

type_synonym Coins = "Coin list"

fun IsAnyNegative :: "Coins \<Rightarrow> bool" where
  "IsAnyNegative [] = False"
| "IsAnyNegative (coin # coins) = (if Amount coin < 0 then True else IsAnyNegative coins)"

record MsgInstantiateContract =
  Sender :: AccAddress
  Code :: "64 word"
  InitMsg :: bytes
  InitFunds :: Coins

record MsgExecuteContract =
  Sender :: AccAddress
  Contract :: AccAddress
  Msg :: bytes
  SentFunds :: Coins

subsection \<open>The outside world of \<^verbatim>\<open>MsgStoreCode.ValidateBasic\<close>\<close>

text \<open>
  \<^verbatim>\<open>url.Parse\<close> and \<^verbatim>\<open>http.Get\<close> belong to the Go standard library and to the network.
  They are parameters of the model. Of a parsed URL only the scheme is read
  (\<^verbatim>\<open>IsAbs\<close> is \<^verbatim>\<open>u.Scheme != ""\<close>); of a response only the status code. \<open>None\<close> stands
  for a returned \<^verbatim>\<open>err != nil\<close>.
\<close>

record URL =
  Scheme :: string

definition IsAbs :: "URL \<Rightarrow> bool" where
  "IsAbs u = (Scheme u \<noteq> '''')"

record World =
  url_Parse :: "string \<Rightarrow> URL option"
  http_Get :: "string \<Rightarrow> nat option"

text \<open>Every call that leaves the validator is recorded, in call order.\<close>

datatype call = UrlParse string | HttpGet string

text \<open>
  \<^verbatim>\<open>regexp.MatchString(BuildTagRegex, s)\<close>: the pattern is the anchor \<^verbatim>\<open>^\<close> followed by a
  literal, so it compiles (no error) and matches exactly the strings that start with
  the literal.
\<close>

definition MatchString_BuildTag :: "string \<Rightarrow> bool" where
  "MatchString_BuildTag s = (take (length (tl BuildTagRegex)) s = tl BuildTagRegex)"

subsection \<open>ValidateBasic\<close>

text \<open>The result is the returned \<^verbatim>\<open>sdk.Error\<close> (\<open>None\<close> for \<^verbatim>\<open>nil\<close>) and the calls made.\<close>

definition check_Builder :: "MsgStoreCode \<Rightarrow> error option" where
  "check_Builder msg =
     (if Builder msg \<noteq> '''' then
        (if \<not> MatchString_BuildTag (Builder msg)
         then Some (SdkError ErrInternal ''invalid tag supplied for builder'')
         else None)
      else None)"

definition StoreCode_ValidateBasic :: "World \<Rightarrow> MsgStoreCode \<Rightarrow> error option \<times> call list" where
  "StoreCode_ValidateBasic w msg =
     (if length (WASMByteCode msg) = 0 then
        (Some (SdkError ErrInternal ''empty wasm code''), [])
      else if length (WASMByteCode msg) > MaxWasmSize then
        (Some (SdkError ErrInternal ''wasm code too large''), [])
      else if Source msg \<noteq> '''' then
        (case url_Parse w (Source msg) of
           None \<Rightarrow>
             (Some (SdkError ErrInternal ''source should be a valid url''),
              [UrlParse (Source msg)])
         | Some u \<Rightarrow>
             if \<not> IsAbs u then
               (Some (SdkError ErrInternal ''source should be an absolute url''),
                [UrlParse (Source msg)])
             else
               (case http_Get w (Source msg) of
                  None \<Rightarrow>
                    (Some (SdkError ErrInternal ''source url is not reachable''),
                     [UrlParse (Source msg), HttpGet (Source msg)])
                | Some status \<Rightarrow>
                    if status \<noteq> 200 then
                      (Some (SdkError ErrInternal ''source url is not reachable''),
                       [UrlParse (Source msg), HttpGet (Source msg)])
                    else
                      (check_Builder msg, [UrlParse (Source msg), HttpGet (Source msg)])))
      else (check_Builder msg, []))"

definition Instantiate_ValidateBasic :: "MsgInstantiateContract \<Rightarrow> error option" where
  "Instantiate_ValidateBasic msg =
     (if IsAnyNegative (InitFunds msg) then Some (SdkError ErrInvalidCoins ''negative InitFunds'')
      else None)"

definition Execute_ValidateBasic :: "MsgExecuteContract \<Rightarrow> error option" where
  "Execute_ValidateBasic msg =
     (if IsAnyNegative (SentFunds msg) then Some (SdkError ErrInvalidCoins ''negative SentFunds'')
      else None)"

section \<open>Go values the querier works with\<close>

text \<open>
  A Go slice variable is either \<^verbatim>\<open>nil\<close> or holds a (possibly empty) sequence;
  \<^verbatim>\<open>append\<close> to a \<^verbatim>\<open>nil\<close> slice allocates. The difference is visible in the JSON
  encoding, so it is kept.
\<close>

datatype 'a slice = NilSlice | Slice "'a list"

fun append_slice :: "'a slice \<Rightarrow> 'a \<Rightarrow> 'a slice" where
  "append_slice NilSlice x = Slice [x]"
| "append_slice (Slice xs) x = Slice (xs @ [x])"

fun elems :: "'a slice \<Rightarrow> 'a list" where
  "elems NilSlice = []"
| "elems (Slice xs) = xs"

text \<open>
  Indexing a Go slice checks the bound and panics outside of it. A panic is a
  \<open>fault\<close>, carrying the index and the length.
\<close>

datatype fault = IndexOutOfRange nat nat

definition index :: "'a list \<Rightarrow> nat \<Rightarrow> fault + 'a" where
  "index xs i = (if i < length xs then Inr (xs ! i) else Inl (IndexOutOfRange i (length xs)))"

subsection \<open>\<^verbatim>\<open>json.MarshalIndent(v, "", "  ")\<close>\<close>

text \<open>
  The encoders of the element types (struct tags and \<^verbatim>\<open>MarshalJSON\<close> methods live outside
  the two source files) are parameters: each yields the text of one value, already
  indented for its depth, or the message of an encoding error. What
  \<^verbatim>\<open>encoding/json\<close> does around them is fixed: a \<^verbatim>\<open>nil\<close> slice and a \<^verbatim>\<open>nil\<close> pointer encode as
  \<^verbatim>\<open>null\<close>, an empty slice as \<^verbatim>\<open>[]\<close>, any other slice as its elements one per line
  between brackets; the first element that fails to encode fails the whole call.
\<close>

definition newline :: string where
  "newline = [CHR 0x0A]"

fun encode_all :: "('a \<Rightarrow> string + bytes) \<Rightarrow> 'a list \<Rightarrow> string + bytes list" where
  "encode_all enc [] = Inr []"
| "encode_all enc (x # xs) =
     (case enc x of
        Inl e \<Rightarrow> Inl e
      | Inr b \<Rightarrow> (case encode_all enc xs of Inl e \<Rightarrow> Inl e | Inr bs \<Rightarrow> Inr (b # bs)))"

fun separate :: "bytes list \<Rightarrow> bytes" where
  "separate [] = []"
| "separate [b] = b"
| "separate (b # bs) = b @ '','' @ newline @ ''  '' @ separate bs"

fun MarshalIndent_slice :: "('a \<Rightarrow> string + bytes) \<Rightarrow> 'a slice \<Rightarrow> string + bytes" where
  "MarshalIndent_slice enc NilSlice = Inr ''null''"
| "MarshalIndent_slice enc (Slice []) = Inr ''[]''"
| "MarshalIndent_slice enc (Slice (x # xs)) =
     (case encode_all enc (x # xs) of
        Inl e \<Rightarrow> Inl e
      | Inr bs \<Rightarrow> Inr (''['' @ newline @ ''  '' @ separate bs @ newline @ '']''))"

fun MarshalIndent_ptr :: "('a \<Rightarrow> string + bytes) \<Rightarrow> 'a option \<Rightarrow> string + bytes" where
  "MarshalIndent_ptr enc None = Inr ''null''"
| "MarshalIndent_ptr enc (Some v) = enc v"

section \<open>The querier (package keeper)\<close>

definition QueryListContracts :: string where "QueryListContracts = ''list-contracts''"
definition QueryGetContract :: string where "QueryGetContract = ''contract-info''"
definition QueryGetContractState :: string where "QueryGetContractState = ''contract-state''"
definition QueryGetCode :: string where "QueryGetCode = ''code''"
definition QueryListCode :: string where "QueryListCode = ''list-code''"

definition QueryMethodContractStateSmart :: string where "QueryMethodContractStateSmart = ''smart''"
definition QueryMethodContractStateAll :: string where "QueryMethodContractStateAll = ''all''"
definition QueryMethodContractStateRaw :: string where "QueryMethodContractStateRaw = ''raw''"

record Model =
  Key :: string
  Value :: string

record CodeInfo =
  Creator :: AccAddress
  CodeHash :: bytes

record GetCodeResponse =
  Code :: bytes

record ListCodeResponse =
  ID :: "64 word"
  Creator :: AccAddress
  CodeHash :: bytes

record RequestQuery =
  Data :: bytes

text \<open>
  The keeper is the collaborator behind the querier; its implementation is not part of
  the two files, so it is a parameter: one field per operation the querier calls. The
  context argument (the store snapshot) is the keeper value itself. The type of a
  contract's info is left open. A storage iterator is the sequence of entries it still
  has to yield: \<^verbatim>\<open>Valid\<close> is non-emptiness, \<^verbatim>\<open>Key\<close> and \<^verbatim>\<open>Value\<close> read the head, \<^verbatim>\<open>Next\<close>
  drops it. \<^verbatim>\<open>ListContractInfo\<close> takes the visiting closure; the variable the closure
  captures is threaded through as state.
\<close>

record 'info Keeper =
  GetContractInfo :: "AccAddress \<Rightarrow> 'info option"
  ListContractInfo ::
    "(AccAddress \<Rightarrow> 'info \<Rightarrow> string slice \<Rightarrow> bool \<times> string slice) \<Rightarrow> string slice \<Rightarrow> string slice"
  GetContractState :: "AccAddress \<Rightarrow> (bytes \<times> bytes) list"
  QueryRaw :: "AccAddress \<Rightarrow> bytes \<Rightarrow> Model slice"
  QuerySmart :: "AccAddress \<Rightarrow> bytes \<Rightarrow> error + bytes"
  GetByteCode :: "64 word \<Rightarrow> error + bytes"
  GetCodeInfo :: "64 word \<Rightarrow> CodeInfo option"

text \<open>
  The library functions the querier calls. A returned Go \<^verbatim>\<open>error\<close> of a library is its
  message (\<open>Inl\<close>).
\<close>

record 'info Lib =
  AccAddressFromBech32 :: "string \<Rightarrow> string + AccAddress"
  AccAddress_String :: "AccAddress \<Rightarrow> string"
  ParseUint :: "string \<Rightarrow> string + 64 word"
  json_ContractInfo :: "'info \<Rightarrow> string + bytes"
  json_string :: "string \<Rightarrow> string + bytes"
  json_Model :: "Model \<Rightarrow> string + bytes"
  json_GetCodeResponse :: "GetCodeResponse \<Rightarrow> string + bytes"
  json_ListCodeResponse :: "ListCodeResponse \<Rightarrow> string + bytes"

subsection \<open>Handlers\<close>

definition queryContractInfo ::
  "'info Lib \<Rightarrow> 'info Keeper \<Rightarrow> string \<Rightarrow> RequestQuery \<Rightarrow> error + bytes" where
  "queryContractInfo lib keeper bech req =
     (case AccAddressFromBech32 lib bech of
        Inl err \<Rightarrow> Inl (SdkError ErrUnknownRequest err)
      | Inr addr \<Rightarrow>
          (let info = GetContractInfo keeper addr in
           case MarshalIndent_ptr (json_ContractInfo lib) info of
             Inl err \<Rightarrow> Inl (SdkError ErrInvalidAddress err)
           | Inr bz \<Rightarrow> Inr bz))"

definition queryContractList :: "'info Lib \<Rightarrow> 'info Keeper \<Rightarrow> RequestQuery \<Rightarrow> error + bytes" where
  "queryContractList lib keeper req =
     (let addrs = ListContractInfo keeper
            (\<lambda>addr _ addrs. (False, append_slice addrs (AccAddress_String lib addr))) NilSlice
      in case MarshalIndent_slice (json_string lib) addrs of
           Inl err \<Rightarrow> Inl (Wrap (Root ErrJSONMarshal) err)
         | Inr bz \<Rightarrow> Inr bz)"

text \<open>The loop of the \<^verbatim>\<open>all\<close> submode: one append per step of the iterator.\<close>

fun iterate :: "(bytes \<times> bytes) list \<Rightarrow> Model slice \<Rightarrow> Model slice" where
  "iterate [] resultData = resultData"
| "iterate ((key, val) # iter) resultData =
     iterate iter (append_slice resultData \<lparr>Key = key, Value = val\<rparr>)"

definition marshal_models :: "'info Lib \<Rightarrow> Model slice \<Rightarrow> error + bytes" where
  "marshal_models lib resultData =
     (case MarshalIndent_slice (json_Model lib) resultData of
        Inl err \<Rightarrow> Inl (Wrap (Root ErrJSONMarshal) err)
      | Inr bz \<Rightarrow> Inr bz)"

definition queryContractState ::
  "'info Lib \<Rightarrow> 'info Keeper \<Rightarrow> string \<Rightarrow> string \<Rightarrow> RequestQuery \<Rightarrow> error + bytes" where
  "queryContractState lib keeper bech queryMethod req =
     (case AccAddressFromBech32 lib bech of
        Inl err \<Rightarrow> Inl (Wrap (Root ErrInvalidAddress) bech)
      | Inr contractAddr \<Rightarrow>
          if queryMethod = QueryMethodContractStateAll then
            (let resultData = iterate (GetContractState keeper contractAddr) NilSlice;
                 resultData = (if resultData = NilSlice then Slice [] else resultData)
             in marshal_models lib resultData)
          else if queryMethod = QueryMethodContractStateRaw then
            marshal_models lib (QueryRaw keeper contractAddr (Data req))
          else if queryMethod = QueryMethodContractStateSmart then
            QuerySmart keeper contractAddr (Data req)
          else Inl (Wrap (Root ErrUnknownRequest) queryMethod))"

definition queryCode ::
  "'info Lib \<Rightarrow> 'info Keeper \<Rightarrow> string \<Rightarrow> RequestQuery \<Rightarrow> error + bytes" where
  "queryCode lib keeper codeIDstr req =
     (case ParseUint lib codeIDstr of
        Inl err \<Rightarrow> Inl (Wrap (Root ErrUnknownRequest) (''invalid codeID: '' @ err))
      | Inr codeID \<Rightarrow>
          (case GetByteCode keeper codeID of
             Inl err \<Rightarrow> Inl (Wrap err ''loading wasm code'')
           | Inr code \<Rightarrow>
               (case json_GetCodeResponse lib \<lparr>Code = code\<rparr> of
                  Inl err \<Rightarrow> Inl (Wrap (Root ErrJSONMarshal) err)
                | Inr bz \<Rightarrow> Inr bz)))"

text \<open>
  The loop of the code list has no bound of its own: it ends when the keeper answers
  \<^verbatim>\<open>nil\<close>. The counter is a \<^verbatim>\<open>uint64\<close> and wraps. Not returning is \<open>None\<close>.
\<close>

partial_function (option) queryCodeList_loop ::
  "'info Keeper \<Rightarrow> 64 word \<Rightarrow> ListCodeResponse slice \<Rightarrow> ListCodeResponse slice option" where
  "queryCodeList_loop keeper i info =
     (let i = i + 1 in
      case GetCodeInfo keeper i of
        None \<Rightarrow> Some info
      | Some res \<Rightarrow>
          queryCodeList_loop keeper i
            (append_slice info
               \<lparr>ID = i, Creator = CodeInfo.Creator res, CodeHash = CodeInfo.CodeHash res\<rparr>))"

declare queryCodeList_loop.simps [code]

definition queryCodeList ::
  "'info Lib \<Rightarrow> 'info Keeper \<Rightarrow> RequestQuery \<Rightarrow> (error + bytes) option" where
  "queryCodeList lib keeper req =
     (case queryCodeList_loop keeper 0 NilSlice of
        None \<Rightarrow> None
      | Some info \<Rightarrow>
          Some (case MarshalIndent_slice (json_ListCodeResponse lib) info of
                  Inl err \<Rightarrow> Inl (Wrap (Root ErrJSONMarshal) err)
                | Inr bz \<Rightarrow> Inr bz))"

subsection \<open>The dispatcher\<close>

text \<open>
  A call of the dispatcher returns (bytes or an error), panics, or does not return.
\<close>

datatype response = Returns "error + bytes" | Panics fault | Diverges

definition newQuerier ::
  "'info Lib \<Rightarrow> 'info Keeper \<Rightarrow> string list \<Rightarrow> RequestQuery \<Rightarrow> response" where
  "newQuerier lib keeper path req =
     (case index path 0 of
        Inl f \<Rightarrow> Panics f
      | Inr kind0 \<Rightarrow>
          if kind0 = QueryGetContract then
            (case index path 1 of
               Inl f \<Rightarrow> Panics f
             | Inr bech \<Rightarrow> Returns (queryContractInfo lib keeper bech req))
          else if kind0 = QueryListContracts then
            Returns (queryContractList lib keeper req)
          else if kind0 = QueryGetContractState then
            (if length path < 3 then
               Returns (Inl (Wrap (Root ErrUnknownRequest) ''unknown data query endpoint''))
             else
               (case index path 1 of
                  Inl f \<Rightarrow> Panics f
                | Inr bech \<Rightarrow>
                    (case index path 2 of
                       Inl f \<Rightarrow> Panics f
                     | Inr queryMethod \<Rightarrow>
                         Returns (queryContractState lib keeper bech queryMethod req))))
          else if kind0 = QueryGetCode then
            (case index path 1 of
               Inl f \<Rightarrow> Panics f
             | Inr codeIDstr \<Rightarrow> Returns (queryCode lib keeper codeIDstr req))
          else if kind0 = QueryListCode then
            (case queryCodeList lib keeper req of
               None \<Rightarrow> Diverges
             | Some r \<Rightarrow> Returns r)
          else Returns (Inl (Wrap (Root ErrUnknownRequest) ''unknown data query endpoint'')))"

section \<open>The keeper's raw lookup\<close>

text \<open>
  Modelled from the spec: the keeper's \<^verbatim>\<open>QueryRaw\<close>, whose code
  (x/wasm/internal/keeper/keeper.go) is not among the sources. The spec: "look up the
  single key given in the payload; return a sequence containing zero or one Model". A
  contract's storage partition is a finite map from key bytes to value bytes.
\<close>

definition QueryRaw_spec ::
  "(AccAddress \<Rightarrow> bytes \<rightharpoonup> bytes) \<Rightarrow> AccAddress \<Rightarrow> bytes \<Rightarrow> Model slice" where
  "QueryRaw_spec store contractAddr key =
     (case store contractAddr key of
        None \<Rightarrow> Slice []
      | Some val \<Rightarrow> Slice [\<lparr>Key = key, Value = val\<rparr>])"

section \<open>A small chain to run the model on\<close>

text \<open>
  Concrete collaborators for the examples: a world in which one URL parses as absolute
  and is reachable, one parses as relative, and nothing else parses; a library that
  decodes two address strings and rejects every other; a keeper with one contract
  (address \<open>A\<close>, two storage entries) and code stored under the IDs 1, 2 and 4.
\<close>

definition test_world :: World where
  "test_world =
     \<lparr>url_Parse = (\<lambda>s. if s = ''https://example.com/src'' then Some \<lparr>Scheme = ''https''\<rparr>
                       else if s = ''foo/bar'' then Some \<lparr>Scheme = ''''\<rparr>
                       else None),
      http_Get = (\<lambda>s. if s = ''https://example.com/src'' then Some 200 else None)\<rparr>"

definition test_lib :: "string Lib" where
  "test_lib =
     \<lparr>AccAddressFromBech32 = (\<lambda>s. if s = ''cosmos1aaa'' then Inr ''A''
                                  else if s = ''cosmos1bbb'' then Inr ''B''
                                  else Inl ''decoding bech32 failed''),
      AccAddress_String = (\<lambda>a. if a = ''A'' then ''cosmos1aaa'' else ''cosmos1bbb''),
      ParseUint = (\<lambda>s. if s = ''1'' then Inr 1 else Inl ''invalid syntax''),
      json_ContractInfo = (\<lambda>i. Inr (''{'' @ i @ ''}'')),
      json_string = (\<lambda>s. Inr s),
      json_Model = (\<lambda>m. Inr (''{'' @ Key m @ '':'' @ Value m @ ''}'')),
      json_GetCodeResponse = (\<lambda>r. Inr (''{'' @ GetCodeResponse.Code r @ ''}'')),
      json_ListCodeResponse = (\<lambda>r. Inr (''{'' @ ListCodeResponse.Creator r @ ''}''))\<rparr>"

definition test_store :: "AccAddress \<Rightarrow> bytes \<rightharpoonup> bytes" where
  "test_store = (\<lambda>a. if a = ''A'' then [''k1'' \<mapsto> ''v1'', ''k2'' \<mapsto> ''v2''] else Map.empty)"

definition test_keeper :: "string Keeper" where
  "test_keeper =
     \<lparr>GetContractInfo = (\<lambda>a. if a = ''A'' then Some ''info-A'' else None),
      ListContractInfo = (\<lambda>visit s. snd (visit ''A'' ''info-A'' s)),
      GetContractState = (\<lambda>a. if a = ''A'' then [(''k1'', ''v1''), (''k2'', ''v2'')] else []),
      QueryRaw = QueryRaw_spec test_store,
      QuerySmart = (\<lambda>a d. Inr (''vm:'' @ d)),
      GetByteCode = (\<lambda>i. if i = 1 then Inr ''wasm'' else Inl (Foreign ''no such code'')),
      GetCodeInfo = (\<lambda>i. if i = 1 \<or> i = 2 \<or> i = 4
                           then Some \<lparr>CodeInfo.Creator = ''A'', CodeInfo.CodeHash = ''h''\<rparr>
                           else None)\<rparr>"

section \<open>Properties\<close>

lemmas query_consts = QueryListContracts_def QueryGetContract_def QueryGetContractState_def
  QueryGetCode_def QueryListCode_def QueryMethodContractStateSmart_def
  QueryMethodContractStateAll_def QueryMethodContractStateRaw_def


subsection \<open>Message validation\<close>

lemma IsAnyNegative_iff: "IsAnyNegative coins \<longleftrightarrow> (\<exists>c \<in> set coins. Amount c < 0)"
  by (induction coins) auto

text \<open>
  Claim C4. The maximum size is 512,000 bytes. \<^verbatim>\<open>MsgStoreCode.ValidateBasic\<close> fails with
  the empty-code error exactly when the bytecode has length 0 and with the
  code-too-large error exactly when the length exceeds 512,000; a message whose length
  is between 1 and 512,000 and whose source and builder raise no issue (each absent, or
  the source parsing as absolute and answering 200, the builder matching the tag
  pattern) is accepted.
\<close>

theorem StoreCode_size_checks:
  "MaxWasmSize = 512000 \<and>
   (fst (StoreCode_ValidateBasic w msg) = Some (SdkError ErrInternal ''empty wasm code'')
      \<longleftrightarrow> length (WASMByteCode msg) = 0) \<and>
   (fst (StoreCode_ValidateBasic w msg) = Some (SdkError ErrInternal ''wasm code too large'')
      \<longleftrightarrow> 512000 < length (WASMByteCode msg)) \<and>
   (1 \<le> length (WASMByteCode msg) \<and> length (WASMByteCode msg) \<le> 512000 \<and>
    (Source msg = '''' \<or>
       (\<exists>u. url_Parse w (Source msg) = Some u \<and> IsAbs u) \<and> http_Get w (Source msg) = Some 200) \<and>
    (Builder msg = '''' \<or> MatchString_BuildTag (Builder msg))
      \<longrightarrow> fst (StoreCode_ValidateBasic w msg) = None)"
proof -
  have size: "MaxWasmSize = 512000"
    by (simp add: MaxWasmSize_def)
  have empty: "fst (StoreCode_ValidateBasic w msg) = Some (SdkError ErrInternal ''empty wasm code'')
      \<longleftrightarrow> length (WASMByteCode msg) = 0"
    by (simp add: StoreCode_ValidateBasic_def check_Builder_def split: option.splits)
  have large: "fst (StoreCode_ValidateBasic w msg) = Some (SdkError ErrInternal ''wasm code too large'')
      \<longleftrightarrow> 512000 < length (WASMByteCode msg)"
    by (auto simp add: StoreCode_ValidateBasic_def check_Builder_def size split: option.splits)
  have ok: "fst (StoreCode_ValidateBasic w msg) = None"
    if "1 \<le> length (WASMByteCode msg)" "length (WASMByteCode msg) \<le> 512000"
      "Source msg = '''' \<or>
       (\<exists>u. url_Parse w (Source msg) = Some u \<and> IsAbs u) \<and> http_Get w (Source msg) = Some 200"
      "Builder msg = '''' \<or> MatchString_BuildTag (Builder msg)"
    using that
    by (auto simp add: StoreCode_ValidateBasic_def check_Builder_def size split: option.splits)
  from size empty large ok show ?thesis by blast
qed

text \<open>The boundary lengths 512,000 and 512,001, and the empty bytecode.\<close>

theorem StoreCode_size_checks_witness:
  "fst (StoreCode_ValidateBasic test_world
         \<lparr>MsgStoreCode.Sender = ''s'', WASMByteCode = replicate 512000 (CHR ''w''),
          Source = '''', Builder = ''''\<rparr>) = None \<and>
   fst (StoreCode_ValidateBasic test_world
         \<lparr>MsgStoreCode.Sender = ''s'', WASMByteCode = replicate 512001 (CHR ''w''),
          Source = '''', Builder = ''''\<rparr>) = Some (SdkError ErrInternal ''wasm code too large'') \<and>
   fst (StoreCode_ValidateBasic test_world
         \<lparr>MsgStoreCode.Sender = ''s'', WASMByteCode = [],
          Source = '''', Builder = ''''\<rparr>) = Some (SdkError ErrInternal ''empty wasm code'')"
  using StoreCode_size_checks [of test_world
      "\<lparr>MsgStoreCode.Sender = ''s'', WASMByteCode = replicate 512000 (CHR ''w''), Source = '''', Builder = ''''\<rparr>"]
    StoreCode_size_checks [of test_world
      "\<lparr>MsgStoreCode.Sender = ''s'', WASMByteCode = replicate 512001 (CHR ''w''), Source = '''', Builder = ''''\<rparr>"]
    StoreCode_size_checks [of test_world
      "\<lparr>MsgStoreCode.Sender = ''s'', WASMByteCode = [], Source = '''', Builder = ''''\<rparr>"]
  by simp

text \<open>
  Claim C5 as stated fails: the size checks come first, so a message with a relative
  source and no bytecode is rejected for its bytecode, not for its source.
\<close>

theorem StoreCode_source_first_counterexample:
  "Source \<lparr>MsgStoreCode.Sender = ''s'', WASMByteCode = [], Source = ''foo/bar'', Builder = ''''\<rparr> \<noteq> '''' \<and>
   url_Parse test_world ''foo/bar'' = Some \<lparr>Scheme = ''''\<rparr> \<and>
   \<not> IsAbs \<lparr>Scheme = ''''\<rparr> \<and>
   fst (StoreCode_ValidateBasic test_world
         \<lparr>MsgStoreCode.Sender = ''s'', WASMByteCode = [], Source = ''foo/bar'', Builder = ''''\<rparr>)
     = Some (SdkError ErrInternal ''empty wasm code'') \<and>
   fst (StoreCode_ValidateBasic test_world
         \<lparr>MsgStoreCode.Sender = ''s'', WASMByteCode = [], Source = ''foo/bar'', Builder = ''''\<rparr>)
     \<noteq> Some (SdkError ErrInternal ''source should be an absolute url'') \<and>
   fst (StoreCode_ValidateBasic test_world
         \<lparr>MsgStoreCode.Sender = ''s'', WASMByteCode = [], Source = ''foo/bar'', Builder = ''''\<rparr>)
     \<noteq> Some (SdkError ErrInternal ''source should be a valid url'')"
  by (simp add: StoreCode_ValidateBasic_def test_world_def IsAbs_def)

text \<open>
  Claim C5, amended. For a message whose source is non-empty and does not parse or is
  not absolute, the reachability probe is never attempted; if moreover the bytecode
  passes the size checks, \<^verbatim>\<open>ValidateBasic\<close> fails with the source-URI error (the message
  telling the two cases apart). When the source is empty, neither the URI check nor the
  probe occurs.
\<close>

theorem StoreCode_bad_source:
  "(Source msg \<noteq> '''' \<and>
      (url_Parse w (Source msg) = None \<or> (\<exists>u. url_Parse w (Source msg) = Some u \<and> \<not> IsAbs u))
     \<longrightarrow> (\<forall>s. HttpGet s \<notin> set (snd (StoreCode_ValidateBasic w msg))) \<and>
         (length (WASMByteCode msg) \<noteq> 0 \<and> length (WASMByteCode msg) \<le> MaxWasmSize
            \<longrightarrow> fst (StoreCode_ValidateBasic w msg) =
                  Some (SdkError ErrInternal
                          (if url_Parse w (Source msg) = None then ''source should be a valid url''
                           else ''source should be an absolute url'')))) \<and>
   (Source msg = '''' \<longrightarrow> snd (StoreCode_ValidateBasic w msg) = [])"
  by (auto simp add: StoreCode_ValidateBasic_def split: option.splits)

text \<open>The relative source \<^verbatim>\<open>foo/bar\<close>, and the absent source.\<close>

theorem StoreCode_bad_source_witness:
  "fst (StoreCode_ValidateBasic test_world
         \<lparr>MsgStoreCode.Sender = ''s'', WASMByteCode = ''wasm'', Source = ''foo/bar'', Builder = ''''\<rparr>)
     = Some (SdkError ErrInternal ''source should be an absolute url'') \<and>
   HttpGet ''foo/bar'' \<notin> set (snd (StoreCode_ValidateBasic test_world
         \<lparr>MsgStoreCode.Sender = ''s'', WASMByteCode = ''wasm'', Source = ''foo/bar'', Builder = ''''\<rparr>)) \<and>
   snd (StoreCode_ValidateBasic test_world
         \<lparr>MsgStoreCode.Sender = ''s'', WASMByteCode = ''wasm'', Source = '''', Builder = ''''\<rparr>) = []"
  using StoreCode_bad_source [of
      "\<lparr>MsgStoreCode.Sender = ''s'', WASMByteCode = ''wasm'', Source = ''foo/bar'', Builder = ''''\<rparr>" test_world]
    StoreCode_bad_source [of
      "\<lparr>MsgStoreCode.Sender = ''s'', WASMByteCode = ''wasm'', Source = '''', Builder = ''''\<rparr>" test_world]
  by (simp add: test_world_def IsAbs_def MaxWasmSize_def)

text \<open>
  Claim C6. \<^verbatim>\<open>MsgInstantiateContract.ValidateBasic\<close> and
  \<^verbatim>\<open>MsgExecuteContract.ValidateBasic\<close> fail with the negative-funds error if and only if
  some amount of the funds is negative; empty and all-zero funds are accepted.
\<close>

theorem funds_validation:
  "Instantiate_ValidateBasic mi =
     (if \<exists>c \<in> set (InitFunds mi). Amount c < 0
      then Some (SdkError ErrInvalidCoins ''negative InitFunds'') else None) \<and>
   Execute_ValidateBasic me =
     (if \<exists>c \<in> set (SentFunds me). Amount c < 0
      then Some (SdkError ErrInvalidCoins ''negative SentFunds'') else None) \<and>
   (InitFunds mi = [] \<or> (\<forall>c \<in> set (InitFunds mi). Amount c = 0)
      \<longrightarrow> Instantiate_ValidateBasic mi = None) \<and>
   (SentFunds me = [] \<or> (\<forall>c \<in> set (SentFunds me). Amount c = 0)
      \<longrightarrow> Execute_ValidateBasic me = None)"
  by (auto simp add: Instantiate_ValidateBasic_def Execute_ValidateBasic_def IsAnyNegative_iff)

text \<open>A negative amount among the init funds; zero sent funds.\<close>

theorem funds_validation_witness:
  "Instantiate_ValidateBasic
     \<lparr>MsgInstantiateContract.Sender = ''s'', Code = 1, InitMsg = ''{}'',
      InitFunds = [\<lparr>Denom = ''stake'', Amount = 5\<rparr>, \<lparr>Denom = ''atom'', Amount = - 1\<rparr>]\<rparr>
     = Some (SdkError ErrInvalidCoins ''negative InitFunds'') \<and>
   Execute_ValidateBasic
     \<lparr>MsgExecuteContract.Sender = ''s'', Contract = ''A'', Msg = ''{}'',
      SentFunds = [\<lparr>Denom = ''stake'', Amount = 0\<rparr>]\<rparr> = None"
  using funds_validation [of
      "\<lparr>MsgInstantiateContract.Sender = ''s'', Code = 1, InitMsg = ''{}'',
        InitFunds = [\<lparr>Denom = ''stake'', Amount = 5\<rparr>, \<lparr>Denom = ''atom'', Amount = - 1\<rparr>]\<rparr>"
      "\<lparr>MsgExecuteContract.Sender = ''s'', Contract = ''A'', Msg = ''{}'',
        SentFunds = [\<lparr>Denom = ''stake'', Amount = 0\<rparr>]\<rparr>"]
  by simp

subsection \<open>Slices\<close>

lemma foldl_append_Slice: "foldl append_slice (Slice ys) xs = Slice (ys @ xs)"
  by (induction xs arbitrary: ys) simp_all

lemma foldl_append_NilSlice:
  "foldl append_slice NilSlice xs = (if xs = [] then NilSlice else Slice xs)"
  by (cases xs) (simp_all add: foldl_append_Slice)

subsection \<open>The contract-state handler\<close>

lemma iterate_foldl:
  "iterate iter resultData =
     foldl append_slice resultData (map (\<lambda>(key, val). \<lparr>Key = key, Value = val\<rparr>) iter)"
  by (induction iter resultData rule: iterate.induct) simp_all

lemma iterate_NilSlice:
  "iterate iter NilSlice =
     (if iter = [] then NilSlice else Slice (map (\<lambda>(key, val). \<lparr>Key = key, Value = val\<rparr>) iter))"
  by (simp add: iterate_foldl foldl_append_NilSlice)

lemma encode_all_Inr: "map enc xs = map Inr bs \<Longrightarrow> encode_all enc xs = Inr bs"
proof (induction xs arbitrary: bs)
  case Nil
  then show ?case by simp
next
  case (Cons x xs)
  then obtain b bs' where bs: "bs = b # bs'" "enc x = Inr b" "map enc xs = map Inr bs'"
    by (cases bs) auto
  with Cons.IH [of bs'] show ?case by simp
qed

lemma encode_all_Inl:
  "\<forall>p \<in> set pre. \<exists>b. enc p = Inr b \<Longrightarrow> enc m = Inl e \<Longrightarrow>
   encode_all enc (pre @ m # rest) = Inl e"
  by (induction pre) auto

lemma separate_concat:
  "separate (b # bs) = b @ concat (map (\<lambda>b'. '','' @ [CHR 0x0A] @ ''  '' @ b') bs)"
  by (induction bs arbitrary: b) (simp_all add: newline_def)

lemma MarshalIndent_slice_nonempty:
  "xs \<noteq> [] \<Longrightarrow>
   MarshalIndent_slice enc (Slice xs) =
     (case encode_all enc xs of
        Inl e \<Rightarrow> Inl e
      | Inr bs \<Rightarrow> Inr (''['' @ newline @ ''  '' @ separate bs @ newline @ '']''))"
  by (cases xs) simp_all

text \<open>
  Claim C8. With an address that decodes, the \<^verbatim>\<open>all\<close> submode of the contract-state
  handler answers the JSON encoding of one Model per step of the keeper's storage
  iterator, in the iterator's order: when every Model encodes, the answer is the
  bracketed text of the encodings in that order, one per line, separated by commas; the
  first Model that fails to encode makes the answer the JSON-marshal error with that
  failure's message. With no storage entry the encoded value is the empty, non-nil
  slice: the answer is \<^verbatim>\<open>[]\<close>, not \<^verbatim>\<open>null\<close>.
\<close>

theorem contract_state_all:
  assumes "AccAddressFromBech32 lib bech = Inr contractAddr"
  shows "queryContractState lib keeper bech QueryMethodContractStateAll req =
           marshal_models lib
             (Slice (map (\<lambda>(key, val). \<lparr>Key = key, Value = val\<rparr>)
                        (GetContractState keeper contractAddr))) \<and>
         (GetContractState keeper contractAddr = [] \<longrightarrow>
            queryContractState lib keeper bech QueryMethodContractStateAll req = Inr ''[]'') \<and>
         (\<forall>b bs.
            map (json_Model lib)
              (map (\<lambda>(key, val). \<lparr>Key = key, Value = val\<rparr>) (GetContractState keeper contractAddr))
              = map Inr (b # bs) \<longrightarrow>
            queryContractState lib keeper bech QueryMethodContractStateAll req =
              Inr (''['' @ [CHR 0x0A] @ ''  '' @ b @
                   concat (map (\<lambda>b'. '','' @ [CHR 0x0A] @ ''  '' @ b') bs) @ [CHR 0x0A] @ '']'')) \<and>
         (\<forall>pre m rest e.
            map (\<lambda>(key, val). \<lparr>Key = key, Value = val\<rparr>) (GetContractState keeper contractAddr)
              = pre @ m # rest \<and>
            (\<forall>p \<in> set pre. \<exists>b. json_Model lib p = Inr b) \<and> json_Model lib m = Inl e \<longrightarrow>
            queryContractState lib keeper bech QueryMethodContractStateAll req =
              Inl (Wrap (Root ErrJSONMarshal) e))"
proof -
  let ?models = "map (\<lambda>(key, val). \<lparr>Key = key, Value = val\<rparr>) (GetContractState keeper contractAddr)"
  let ?res = "queryContractState lib keeper bech QueryMethodContractStateAll req"
  have res: "?res = marshal_models lib (Slice ?models)"
    using assms
    by (simp add: queryContractState_def iterate_NilSlice Let_def)
  have none: "?res = Inr ''[]''" if "GetContractState keeper contractAddr = []"
    using that by (simp add: res marshal_models_def)
  have bytes: "?res = Inr (''['' @ [CHR 0x0A] @ ''  '' @ b @
                   concat (map (\<lambda>b'. '','' @ [CHR 0x0A] @ ''  '' @ b') bs) @ [CHR 0x0A] @ '']'')"
    if enc: "map (json_Model lib) ?models = map Inr (b # bs)" for b bs
  proof -
    from enc have ne: "?models \<noteq> []"
      by auto
    from encode_all_Inr [OF enc] have "encode_all (json_Model lib) ?models = Inr (b # bs)" .
    with MarshalIndent_slice_nonempty [OF ne, of "json_Model lib"] show ?thesis
      by (simp add: res marshal_models_def separate_concat newline_def)
  qed
  have fails: "?res = Inl (Wrap (Root ErrJSONMarshal) e)"
    if "?models = pre @ m # rest" "\<forall>p \<in> set pre. \<exists>b. json_Model lib p = Inr b"
      "json_Model lib m = Inl e" for pre m rest e
  proof -
    from that(1) have ne: "?models \<noteq> []"
      by simp
    from encode_all_Inl [OF that(2) that(3), of rest] that(1)
    have "encode_all (json_Model lib) ?models = Inl e"
      by simp
    with MarshalIndent_slice_nonempty [OF ne, of "json_Model lib"] show ?thesis
      by (simp add: res marshal_models_def)
  qed
  from res none bytes fails show ?thesis
    by blast
qed

text \<open>
  A contract without storage; one with two entries, byte for byte; the same contract
  under an encoder that fails at the second entry.
\<close>

theorem contract_state_all_witness:
  "queryContractState test_lib test_keeper ''cosmos1bbb'' ''all'' \<lparr>Data = ''''\<rparr> = Inr ''[]'' \<and>
   queryContractState test_lib test_keeper ''cosmos1aaa'' ''all'' \<lparr>Data = ''''\<rparr> =
     Inr (''['' @ [CHR 0x0A] @ ''  {k1:v1},'' @ [CHR 0x0A] @ ''  {k2:v2}'' @ [CHR 0x0A] @ '']'') \<and>
   queryContractState (test_lib\<lparr>json_Model := (\<lambda>m. if Key m = ''k2'' then Inl ''bad'' else Inr (Key m))\<rparr>)
       test_keeper ''cosmos1aaa'' ''all'' \<lparr>Data = ''''\<rparr> =
     Inl (Wrap (Root ErrJSONMarshal) ''bad'')"
proof -
  let ?lib = "test_lib\<lparr>json_Model := (\<lambda>m. if Key m = ''k2'' then Inl ''bad'' else Inr (Key m))\<rparr>"
  let ?req = "\<lparr>Data = ''''\<rparr>"
  have a: "AccAddressFromBech32 test_lib ''cosmos1aaa'' = Inr ''A''"
    and a': "AccAddressFromBech32 ?lib ''cosmos1aaa'' = Inr ''A''"
    and b: "AccAddressFromBech32 test_lib ''cosmos1bbb'' = Inr ''B''"
    and sa: "GetContractState test_keeper ''A'' = [(''k1'', ''v1''), (''k2'', ''v2'')]"
    and sb: "GetContractState test_keeper ''B'' = []"
    by (simp_all add: test_lib_def test_keeper_def)
  have enc: "map (json_Model test_lib)
               (map (\<lambda>(key, val). \<lparr>Key = key, Value = val\<rparr>) (GetContractState test_keeper ''A''))
             = map Inr [''{k1:v1}'', ''{k2:v2}'']"
    by (simp add: sa test_lib_def)
  have split: "map (\<lambda>(key, val). \<lparr>Key = key, Value = val\<rparr>) (GetContractState test_keeper ''A'')
             = [\<lparr>Key = ''k1'', Value = ''v1''\<rparr>] @ \<lparr>Key = ''k2'', Value = ''v2''\<rparr> # []"
    by (simp add: sa)
  have pre: "\<forall>p \<in> set [\<lparr>Key = ''k1'', Value = ''v1''\<rparr>]. \<exists>b. json_Model ?lib p = Inr b"
    by simp
  have bad: "json_Model ?lib \<lparr>Key = ''k2'', Value = ''v2''\<rparr> = Inl ''bad''"
    by simp
  from contract_state_all [OF b, of test_keeper ?req] sb
  have 1: "queryContractState test_lib test_keeper ''cosmos1bbb'' QueryMethodContractStateAll ?req
             = Inr ''[]''"
    by blast
  from contract_state_all [OF a, of test_keeper ?req] enc
  have 2: "queryContractState test_lib test_keeper ''cosmos1aaa'' QueryMethodContractStateAll ?req =
             Inr (''['' @ [CHR 0x0A] @ ''  '' @ ''{k1:v1}'' @
                  concat (map (\<lambda>b'. '','' @ [CHR 0x0A] @ ''  '' @ b') [''{k2:v2}'']) @
                  [CHR 0x0A] @ '']'')"
    by blast
  from contract_state_all [OF a', of test_keeper ?req] split pre bad
  have 3: "queryContractState ?lib test_keeper ''cosmos1aaa'' QueryMethodContractStateAll ?req =
             Inl (Wrap (Root ErrJSONMarshal) ''bad'')"
    by blast
  from 1 2 3 show ?thesis
    unfolding QueryMethodContractStateAll_def by simp
qed

text \<open>
  Claim C3. With an address that decodes and a keeper whose raw lookup is the one the
  spec describes, the \<^verbatim>\<open>raw\<close> submode asked for a key that is not in the contract's
  storage succeeds, and answers the encoding of the empty sequence.
\<close>

theorem contract_state_raw_absent:
  assumes "AccAddressFromBech32 lib bech = Inr contractAddr"
    and "QueryRaw keeper = QueryRaw_spec store"
    and "store contractAddr (Data req) = None"
  shows "queryContractState lib keeper bech QueryMethodContractStateRaw req = Inr ''[]''"
  using assms
  by (simp add: queryContractState_def marshal_models_def QueryRaw_spec_def query_consts)

text \<open>The key \<^verbatim>\<open>k3\<close> is not stored under the contract \<open>A\<close>.\<close>

theorem contract_state_raw_absent_witness:
  "queryContractState test_lib test_keeper ''cosmos1aaa'' ''raw'' \<lparr>Data = ''k3''\<rparr> = Inr ''[]''"
proof -
  have a: "AccAddressFromBech32 test_lib ''cosmos1aaa'' = Inr ''A''"
    and q: "QueryRaw test_keeper = QueryRaw_spec test_store"
    and k: "test_store ''A'' (Data \<lparr>Data = ''k3''\<rparr>) = None"
    by (simp_all add: test_lib_def test_keeper_def test_store_def)
  from contract_state_raw_absent [OF a q k] show ?thesis
    by (simp add: QueryMethodContractStateRaw_def)
qed

text \<open>
  Claim C9. With an address that decodes, the \<^verbatim>\<open>smart\<close> submode answers exactly what the
  keeper's \<^verbatim>\<open>QuerySmart\<close> returned for the payload: the same bytes (or the same error),
  with no JSON encoding in between, from the handler and from the dispatcher.
\<close>

theorem contract_state_smart:
  assumes "AccAddressFromBech32 lib bech = Inr contractAddr"
  shows "queryContractState lib keeper bech QueryMethodContractStateSmart req =
           QuerySmart keeper contractAddr (Data req) \<and>
         newQuerier lib keeper
             (QueryGetContractState # bech # QueryMethodContractStateSmart # rest) req =
           Returns (QuerySmart keeper contractAddr (Data req))"
  using assms
  by (simp add: queryContractState_def newQuerier_def index_def query_consts)

text \<open>The bytes of the virtual machine come back unchanged.\<close>

theorem contract_state_smart_witness:
  "queryContractState test_lib test_keeper ''cosmos1aaa'' ''smart'' \<lparr>Data = ''{q}''\<rparr> =
     Inr ''vm:{q}'' \<and>
   newQuerier test_lib test_keeper [''contract-state'', ''cosmos1aaa'', ''smart'']
     \<lparr>Data = ''{q}''\<rparr> = Returns (Inr ''vm:{q}'')"
proof -
  have a: "AccAddressFromBech32 test_lib ''cosmos1aaa'' = Inr ''A''"
    and q: "QuerySmart test_keeper ''A'' ''{q}'' = Inr ''vm:{q}''"
    by (simp_all add: test_lib_def test_keeper_def)
  from contract_state_smart [OF a, of test_keeper "\<lparr>Data = ''{q}''\<rparr>" "[]"] show ?thesis
    by (simp add: q query_consts)
qed

subsection \<open>The contract-info handler\<close>

text \<open>
  Claim C10. With an address that decodes and for which the keeper knows no contract
  (\<^verbatim>\<open>GetContractInfo\<close> answers \<^verbatim>\<open>nil\<close>), the contract-info handler returns no error: it
  answers the JSON encoding of the absent value, \<^verbatim>\<open>null\<close>. The answer for any contract
  whose info encodes to the same bytes is the same answer.
\<close>

theorem contract_info_absent:
  assumes "AccAddressFromBech32 lib bech = Inr addr"
    and "GetContractInfo keeper addr = None"
  shows "queryContractInfo lib keeper bech req = Inr ''null'' \<and>
         (\<forall>keeper' bech' addr' info.
            AccAddressFromBech32 lib bech' = Inr addr' \<and>
            GetContractInfo keeper' addr' = Some info \<and>
            json_ContractInfo lib info = Inr ''null''
            \<longrightarrow> queryContractInfo lib keeper' bech' req = queryContractInfo lib keeper bech req)"
  using assms
  by (simp add: queryContractInfo_def)

text \<open>
  No contract lives at \<open>B\<close>. Under an encoder that writes every info as \<^verbatim>\<open>null\<close>, the
  contract at \<open>A\<close> and the missing one at \<open>B\<close> get the same answer.
\<close>

theorem contract_info_absent_witness:
  "queryContractInfo test_lib test_keeper ''cosmos1bbb'' \<lparr>Data = ''''\<rparr> = Inr ''null'' \<and>
   queryContractInfo (test_lib\<lparr>json_ContractInfo := (\<lambda>i. Inr ''null'')\<rparr>) test_keeper
     ''cosmos1aaa'' \<lparr>Data = ''''\<rparr> =
   queryContractInfo (test_lib\<lparr>json_ContractInfo := (\<lambda>i. Inr ''null'')\<rparr>) test_keeper
     ''cosmos1bbb'' \<lparr>Data = ''''\<rparr>"
proof -
  let ?lib = "test_lib\<lparr>json_ContractInfo := (\<lambda>i. Inr ''null'')\<rparr>"
  have a: "AccAddressFromBech32 test_lib ''cosmos1bbb'' = Inr ''B''"
    and a': "AccAddressFromBech32 ?lib ''cosmos1bbb'' = Inr ''B''"
    and b: "AccAddressFromBech32 ?lib ''cosmos1aaa'' = Inr ''A''"
    and c: "GetContractInfo test_keeper ''B'' = None"
    and d: "GetContractInfo test_keeper ''A'' = Some ''info-A''"
    and e: "json_ContractInfo ?lib ''info-A'' = Inr ''null''"
    by (simp_all add: test_lib_def test_keeper_def)
  from contract_info_absent [OF a c] have 1: "queryContractInfo test_lib test_keeper ''cosmos1bbb'' \<lparr>Data = ''''\<rparr> = Inr ''null''"
    by blast
  from contract_info_absent [OF a' c, of "\<lparr>Data = ''''\<rparr>"] b d e
  have 2: "queryContractInfo ?lib test_keeper ''cosmos1aaa'' \<lparr>Data = ''''\<rparr> =
           queryContractInfo ?lib test_keeper ''cosmos1bbb'' \<lparr>Data = ''''\<rparr>"
    by blast
  from 1 2 show ?thesis by blast
qed

subsection \<open>Invalid addresses\<close>

text \<open>
  Claim C1. What the two handlers that take an address do with a string that does not
  decode: the contract-state handler fails with the invalid-address error, whatever the
  submode; the contract-info handler fails too, but with a legacy error of the category
  unknown-request that carries the decoder's message. Neither can panic: no branch of
  either handler indexes a slice.
\<close>

theorem invalid_address_errors:
  assumes "AccAddressFromBech32 lib bech = Inl msg"
  shows "queryContractState lib keeper bech queryMethod req =
           Inl (Wrap (Root ErrInvalidAddress) bech) \<and>
         queryContractInfo lib keeper bech req = Inl (SdkError ErrUnknownRequest msg) \<and>
         kind (Wrap (Root ErrInvalidAddress) bech) = Some ErrInvalidAddress \<and>
         kind (SdkError ErrUnknownRequest msg) = Some ErrUnknownRequest"
  using assms
  by (simp add: queryContractState_def queryContractInfo_def)

text \<open>The string \<^verbatim>\<open>not-an-address\<close> at both handlers.\<close>

theorem invalid_address_errors_witness:
  "queryContractState test_lib test_keeper ''not-an-address'' ''raw'' \<lparr>Data = ''k1''\<rparr> =
     Inl (Wrap (Root ErrInvalidAddress) ''not-an-address'') \<and>
   queryContractInfo test_lib test_keeper ''not-an-address'' \<lparr>Data = ''''\<rparr> =
     Inl (SdkError ErrUnknownRequest ''decoding bech32 failed'')"
proof -
  have a: "AccAddressFromBech32 test_lib ''not-an-address'' = Inl ''decoding bech32 failed''"
    by (simp add: test_lib_def)
  from invalid_address_errors [OF a, of test_keeper "''raw''" "\<lparr>Data = ''k1''\<rparr>"]
    invalid_address_errors [OF a, of test_keeper "''raw''" "\<lparr>Data = ''''\<rparr>"]
  show ?thesis by blast
qed

subsection \<open>The dispatcher\<close>

text \<open>
  Claim C2. What the dispatcher does with the paths of the claim: an unrecognised first
  segment and a contract-state path of fewer than three segments get the
  unknown-request error; the one-segment paths \<^verbatim>\<open>contract-info\<close> and \<^verbatim>\<open>code\<close> reach
  \<^verbatim>\<open>path[1]\<close> unguarded and panic with an index out of range.
\<close>

theorem newQuerier_short_paths:
  "(kind0 \<noteq> QueryGetContract \<and> kind0 \<noteq> QueryListContracts \<and> kind0 \<noteq> QueryGetContractState \<and>
    kind0 \<noteq> QueryGetCode \<and> kind0 \<noteq> QueryListCode
      \<longrightarrow> newQuerier lib keeper (kind0 # rest) req =
            Returns (Inl (Wrap (Root ErrUnknownRequest) ''unknown data query endpoint''))) \<and>
   (length rest < 2
      \<longrightarrow> newQuerier lib keeper (QueryGetContractState # rest) req =
            Returns (Inl (Wrap (Root ErrUnknownRequest) ''unknown data query endpoint''))) \<and>
   newQuerier lib keeper [QueryGetContract] req = Panics (IndexOutOfRange 1 1) \<and>
   newQuerier lib keeper [QueryGetCode] req = Panics (IndexOutOfRange 1 1)"
  by (simp add: newQuerier_def index_def query_consts)

text \<open>One path of each of the four shapes.\<close>

theorem newQuerier_short_paths_witness:
  "newQuerier test_lib test_keeper [''bogus'', ''x''] \<lparr>Data = ''''\<rparr> =
     Returns (Inl (Wrap (Root ErrUnknownRequest) ''unknown data query endpoint'')) \<and>
   newQuerier test_lib test_keeper [''contract-state'', ''cosmos1aaa''] \<lparr>Data = ''''\<rparr> =
     Returns (Inl (Wrap (Root ErrUnknownRequest) ''unknown data query endpoint'')) \<and>
   newQuerier test_lib test_keeper [''contract-info''] \<lparr>Data = ''''\<rparr> = Panics (IndexOutOfRange 1 1) \<and>
   newQuerier test_lib test_keeper [''code''] \<lparr>Data = ''''\<rparr> = Panics (IndexOutOfRange 1 1)"
  using newQuerier_short_paths [of "''bogus''" test_lib test_keeper "[''x'']" "\<lparr>Data = ''''\<rparr>"]
    newQuerier_short_paths [of "''bogus''" test_lib test_keeper "[''cosmos1aaa'']" "\<lparr>Data = ''''\<rparr>"]
  by (simp add: query_consts)

subsection \<open>The code list\<close>

lemma queryCodeList_loop_scan:
  assumes "\<forall>j. i < j \<and> j < n \<longrightarrow> GetCodeInfo keeper (of_nat j) \<noteq> None"
    and "GetCodeInfo keeper (of_nat n) = None"
    and "i < n"
  shows "queryCodeList_loop keeper (of_nat i) info =
           Some (foldl append_slice info
                   (map (\<lambda>j. \<lparr>ID = of_nat j,
                               Creator = CodeInfo.Creator (the (GetCodeInfo keeper (of_nat j))),
                               CodeHash = CodeInfo.CodeHash (the (GetCodeInfo keeper (of_nat j)))\<rparr>)
                        [Suc i..<n]))"
  using assms
proof (induction "n - i" arbitrary: i info)
  case 0
  then show ?case by simp
next
  case (Suc d)
  have step: "(of_nat i :: 64 word) + 1 = of_nat (Suc i)"
    by simp
  show ?case
  proof (cases "Suc i = n")
    case True
    with Suc.prems(2) have "GetCodeInfo keeper (of_nat i + 1) = None"
      by (simp only: step)
    with True show ?thesis
      by (subst queryCodeList_loop.simps) (simp add: Let_def)
  next
    case False
    with Suc.prems(3) have lt: "Suc i < n"
      by simp
    with Suc.prems(1) obtain res where res: "GetCodeInfo keeper (of_nat (Suc i)) = Some res"
      by (metis lessI not_Some_eq)
    have d: "d = n - Suc i"
      using Suc.hyps(2) by simp
    have later: "\<forall>j. Suc i < j \<and> j < n \<longrightarrow> GetCodeInfo keeper (of_nat j) \<noteq> None"
      using Suc.prems(1) by (simp add: Suc_lessD)
    have upt: "[Suc i..<n] = Suc i # [Suc (Suc i)..<n]"
      using lt by (simp add: upt_conv_Cons)
    have "queryCodeList_loop keeper (of_nat i) info =
            queryCodeList_loop keeper (of_nat (Suc i))
              (append_slice info
                 \<lparr>ID = of_nat (Suc i), Creator = CodeInfo.Creator res,
                  CodeHash = CodeInfo.CodeHash res\<rparr>)"
      by (subst queryCodeList_loop.simps) (simp only: Let_def step res option.case)
    also note Suc.hyps(1) [OF d later Suc.prems(2) lt]
    finally show ?thesis
      by (simp only: upt list.map foldl_Cons res option.sel)
  qed
qed

text \<open>
  Claim C7. Let \<open>n\<close> be the first ID, counting from 1, for which the keeper has no
  CodeInfo. The loop of the code-list handler returns, and its result holds exactly the
  entries (ID, creator, code hash) of the IDs 1 to \<open>n - 1\<close>, in this order (the \<^verbatim>\<open>nil\<close>
  slice when \<open>n = 1\<close>); the handler answers their JSON encoding. Whatever is stored under
  IDs above \<open>n\<close> plays no part.
\<close>

theorem queryCodeList_scan:
  assumes "0 < n"
    and "\<forall>j \<in> {1..<n}. GetCodeInfo keeper (of_nat j) \<noteq> None"
    and "GetCodeInfo keeper (of_nat n) = None"
  shows "queryCodeList_loop keeper 0 NilSlice =
           Some (if n = 1 then NilSlice
                 else Slice (map (\<lambda>j. \<lparr>ID = of_nat j,
                               Creator = CodeInfo.Creator (the (GetCodeInfo keeper (of_nat j))),
                               CodeHash = CodeInfo.CodeHash (the (GetCodeInfo keeper (of_nat j)))\<rparr>)
                        [1..<n])) \<and>
         queryCodeList lib keeper req =
           Some (case MarshalIndent_slice (json_ListCodeResponse lib)
                        (if n = 1 then NilSlice
                         else Slice (map (\<lambda>j. \<lparr>ID = of_nat j,
                               Creator = CodeInfo.Creator (the (GetCodeInfo keeper (of_nat j))),
                               CodeHash = CodeInfo.CodeHash (the (GetCodeInfo keeper (of_nat j)))\<rparr>)
                        [1..<n])) of
                   Inl err \<Rightarrow> Inl (Wrap (Root ErrJSONMarshal) err)
                 | Inr bz \<Rightarrow> Inr bz)"
proof -
  have found: "\<forall>j. 0 < j \<and> j < n \<longrightarrow> GetCodeInfo keeper (of_nat j) \<noteq> None"
    using assms(2) by simp
  from queryCodeList_loop_scan [OF found assms(3) assms(1), of NilSlice]
  have loop: "queryCodeList_loop keeper 0 NilSlice =
           Some (if n = 1 then NilSlice
                 else Slice (map (\<lambda>j. \<lparr>ID = of_nat j,
                               Creator = CodeInfo.Creator (the (GetCodeInfo keeper (of_nat j))),
                               CodeHash = CodeInfo.CodeHash (the (GetCodeInfo keeper (of_nat j)))\<rparr>)
                        [1..<n]))"
    using assms(1) by (auto simp add: foldl_append_NilSlice)
  then show ?thesis
    by (simp add: queryCodeList_def)
qed

text \<open>Code under the IDs 1, 2 and 4, none under 3: the list has the entries 1 and 2.\<close>

theorem queryCodeList_scan_witness:
  "queryCodeList_loop test_keeper 0 NilSlice =
     Some (Slice [\<lparr>ID = 1, Creator = ''A'', CodeHash = ''h''\<rparr>,
                  \<lparr>ID = 2, Creator = ''A'', CodeHash = ''h''\<rparr>]) \<and>
   GetCodeInfo test_keeper 4 = Some \<lparr>CodeInfo.Creator = ''A'', CodeInfo.CodeHash = ''h''\<rparr> \<and>
   queryCodeList test_lib test_keeper \<lparr>Data = ''''\<rparr> =
     Some (Inr (''['' @ newline @ ''  {A},'' @ newline @ ''  {A}'' @ newline @ '']''))"
proof -
  have n: "0 < (3::nat)"
    by simp
  have found: "\<forall>j \<in> {1..<3::nat}. GetCodeInfo test_keeper (of_nat j) \<noteq> None"
  proof
    fix j :: nat
    assume "j \<in> {1..<3}"
    then have "j = 1 \<or> j = 2"
      by auto
    then show "GetCodeInfo test_keeper (of_nat j) \<noteq> None"
      by (auto simp add: test_keeper_def)
  qed
  have missing: "GetCodeInfo test_keeper (of_nat 3) = None"
    by (simp add: test_keeper_def)
  have upt: "[Suc 0..<3] = [1, 2]"
    by (simp add: upt_rec)
  have infos: "GetCodeInfo test_keeper 1 = Some \<lparr>CodeInfo.Creator = ''A'', CodeInfo.CodeHash = ''h''\<rparr>"
    "GetCodeInfo test_keeper 2 = Some \<lparr>CodeInfo.Creator = ''A'', CodeInfo.CodeHash = ''h''\<rparr>"
    "GetCodeInfo test_keeper 4 = Some \<lparr>CodeInfo.Creator = ''A'', CodeInfo.CodeHash = ''h''\<rparr>"
    by (simp_all add: test_keeper_def)
  have enc: "json_ListCodeResponse test_lib = (\<lambda>r. Inr (''{'' @ ListCodeResponse.Creator r @ ''}''))"
    by (simp add: test_lib_def)
  from queryCodeList_scan [OF n found missing, of test_lib "\<lparr>Data = ''''\<rparr>"]
  show ?thesis
    by (simp add: upt infos enc)
qed

end
